theory Spec2Isabelle
  imports Complex_Main
begin

section \<open>The presentation layer: \<^verbatim>\<open>src/App.js\<close>\<close>

subsection \<open>JavaScript values\<close>

text \<open>
  The values that travel between the form, the request bodies and the responses:
  the JSON values, and \<^verbatim>\<open>undefined\<close> for a property that is not there.
  \<^verbatim>\<open>App.js\<close> does no arithmetic, so a number is carried as the real it denotes.
  An object is the list of its properties.
\<close>

datatype jsval =
    JUndefined
  | JNull
  | JBool bool
  | JNum real
  | JStr string
  | JArr "jsval list"
  | JObj "(string \<times> jsval) list"

text \<open>What a \<^verbatim>\<open>try\<close> block can catch: the \<^verbatim>\<open>TypeError\<close> of reading a property of
  \<^verbatim>\<open>null\<close> or \<^verbatim>\<open>undefined\<close>, and the error a rejected \<^verbatim>\<open>axios.post\<close> carries.\<close>

datatype exn = TypeError | AxiosError jsval

datatype 'a settled = Fulfilled 'a | Rejected exn

text \<open>
  \<^verbatim>\<open>v.k\<close> for a property name \<open>k\<close> that no prototype defines (the handlers read
  \<^verbatim>\<open>focal_length\<close> and \<^verbatim>\<open>image\<close>): it throws on \<^verbatim>\<open>null\<close> and \<^verbatim>\<open>undefined\<close>, reads the
  property of an object, and is \<^verbatim>\<open>undefined\<close> on every other value.
\<close>

fun js_get :: "jsval \<Rightarrow> string \<Rightarrow> exn + jsval" where
  "js_get JUndefined k = Inl TypeError"
| "js_get JNull k = Inl TypeError"
| "js_get (JObj kvs) k = Inr (case map_of kvs k of Some v \<Rightarrow> v | None \<Rightarrow> JUndefined)"
| "js_get v k = Inr JUndefined"

text \<open>The property names of an object, in order.\<close>

fun keys :: "jsval \<Rightarrow> string list" where
  "keys (JObj kvs) = map fst kvs"
| "keys v = []"

text \<open>Truthiness, as \<^verbatim>\<open>&&\<close> tests it.\<close>

fun truthy :: "jsval \<Rightarrow> bool" where
  "truthy JUndefined = False"
| "truthy JNull = False"
| "truthy (JBool b) = b"
| "truthy (JNum x) = (x \<noteq> 0)"
| "truthy (JStr s) = (s \<noteq> [])"
| "truthy (JArr xs) = True"
| "truthy (JObj kvs) = True"

fun join :: "string \<Rightarrow> string list \<Rightarrow> string" where
  "join sep [] = []"
| "join sep [s] = s"
| "join sep (s # t # ss) = s @ sep @ join sep (t # ss)"

text \<open>
  The string a template literal \<^verbatim>\<open>${v}\<close> inserts, or the TypeError it throws. How a
  number prints is the language's \<^verbatim>\<open>Number::toString\<close>, taken as the parameter \<open>nts\<close>.
  An object is converted by its \<^verbatim>\<open>toString\<close>: the inherited one gives
  \<^verbatim>\<open>[object Object]\<close>, and an own property of that name, which in a JSON value is never a
  function, leaves nothing to convert with. An array joins the strings of its elements,
  the empty string for \<^verbatim>\<open>null\<close> and \<^verbatim>\<open>undefined\<close>, and throws when an element does.
\<close>

fun ToString :: "(real \<Rightarrow> string) \<Rightarrow> jsval \<Rightarrow> exn + string"
  and ToStrings :: "(real \<Rightarrow> string) \<Rightarrow> jsval list \<Rightarrow> exn + string list" where
  "ToString nts JUndefined = Inr ''undefined''"
| "ToString nts JNull = Inr ''null''"
| "ToString nts (JBool b) = Inr (if b then ''true'' else ''false'')"
| "ToString nts (JNum x) = Inr (nts x)"
| "ToString nts (JStr s) = Inr s"
| "ToString nts (JArr xs) =
     (case ToStrings nts xs of Inl e \<Rightarrow> Inl e | Inr ss \<Rightarrow> Inr (join '','' ss))"
| "ToString nts (JObj kvs) =
     (if ''toString'' \<in> set (map fst kvs) then Inl TypeError else Inr ''[object Object]'')"
| "ToStrings nts [] = Inr []"
| "ToStrings nts (v # vs) =
     (case (if v = JUndefined \<or> v = JNull then Inr [] else ToString nts v) of
        Inl e \<Rightarrow> Inl e
      | Inr s \<Rightarrow> (case ToStrings nts vs of Inl e \<Rightarrow> Inl e | Inr ss \<Rightarrow> Inr (s # ss)))"

subsection \<open>Component state\<close>

text \<open>
  The three \<^verbatim>\<open>useState\<close> cells. \<open>inputs\<close> is an object whose property values are the
  texts of the form fields; \<open>focalLength\<close> only ever holds a string; \<open>plotImage\<close> holds
  whatever the response carried.
\<close>

record app_state =
  inputs :: "string \<rightharpoonup> string"
  focalLength :: string
  plotImage :: jsval

definition field_names :: "string list" where
  "field_names = [''spacings'', ''thicknesses'', ''diameter'', ''voltages'',
                  ''angle'', ''offset'', ''energy'', ''numDatapoints'']"

definition initial_state :: app_state where
  "initial_state =
     \<lparr> inputs = map_of (map (\<lambda>k. (k, [])) field_names), focalLength = [], plotImage = JStr [] \<rparr>"

text \<open>\<^verbatim>\<open>setInputs(inputs => ({ ...inputs, [name]: value }))\<close>, for an event whose target has
  the given name and text.\<close>

definition handleChange :: "string \<Rightarrow> string \<Rightarrow> app_state \<Rightarrow> app_state" where
  "handleChange target_name target_text st = st\<lparr> inputs := (inputs st)(target_name \<mapsto> target_text) \<rparr>"

text \<open>The state after a sequence of change events on the fresh component.\<close>

definition form_state :: "(string \<times> string) list \<Rightarrow> app_state" where
  "form_state evs = foldl (\<lambda>st (n, v). handleChange n v st) initial_state evs"

text \<open>\<^verbatim>\<open>inputs.k\<close>\<close>

definition input_value :: "app_state \<Rightarrow> string \<Rightarrow> jsval" where
  "input_value st k = (case inputs st k of Some s \<Rightarrow> JStr s | None \<Rightarrow> JUndefined)"

subsection \<open>The two handlers\<close>

datatype effect =
    PreventDefault
  | Post string jsval
  | ConsoleError string exn

text \<open>What a handler call leaves behind: the state after its \<^verbatim>\<open>set...\<close> calls, what it did
  to the outside, in order, and how the promise of the async function settles.\<close>

record outcome =
  state :: app_state
  effects :: "effect list"
  completion :: "unit settled"

text \<open>\<^verbatim>\<open>axios.post(url, body)\<close>: the backend and the transport are outside the component,
  so the handlers take them as a function to the settled promise; a fulfilled one carries
  \<^verbatim>\<open>response.data\<close>, the only part of the response the handlers read.\<close>

type_synonym network = "string \<Rightarrow> jsval \<Rightarrow> jsval settled"

definition focal_url :: string where
  "focal_url = ''http://localhost:5000/calculate_focal_length''"

definition plot_url :: string where
  "plot_url = ''http://localhost:5000/plot_ray''"

definition focal_body :: "app_state \<Rightarrow> jsval" where
  "focal_body st = JObj
     [(''spacings'', input_value st ''spacings''),
      (''thicknesses'', input_value st ''thicknesses''),
      (''diameter'', input_value st ''diameter''),
      (''voltages'', input_value st ''voltages'')]"

definition ray_body :: "app_state \<Rightarrow> jsval" where
  "ray_body st = JObj
     [(''spacings'', input_value st ''spacings''),
      (''thicknesses'', input_value st ''thicknesses''),
      (''diameter'', input_value st ''diameter''),
      (''voltages'', input_value st ''voltages''),
      (''angle'', input_value st ''angle''),
      (''offset'', input_value st ''offset''),
      (''energy'', input_value st ''energy''),
      (''numDatapoints'', input_value st ''numDatapoints'')]"

definition handleFocalLengthCalculation :: "(real \<Rightarrow> string) \<Rightarrow> network \<Rightarrow> app_state \<Rightarrow> outcome" where
  "handleFocalLengthCalculation nts post st =
     (let body = focal_body st;
          sent = [PreventDefault, Post focal_url body];
          caught = (\<lambda>e. \<lparr> state = st,
                          effects = sent @ [ConsoleError ''Error fetching focal length:'' e],
                          completion = Fulfilled () \<rparr>)
      in case post focal_url body of
           Rejected e \<Rightarrow> caught e
         | Fulfilled d \<Rightarrow>
             (case js_get d ''focal_length'' of
                Inl e \<Rightarrow> caught e
              | Inr v \<Rightarrow>
                  (case ToString nts v of
                     Inl e \<Rightarrow> caught e
                   | Inr shown \<Rightarrow>
                       \<lparr> state = st\<lparr> focalLength :=
                            ''System Focal Length: '' @ shown @ '' meters'' \<rparr>,
                         effects = sent,
                         completion = Fulfilled () \<rparr>)))"

definition handleRayPlotting :: "network \<Rightarrow> app_state \<Rightarrow> outcome" where
  "handleRayPlotting post st =
     (let body = ray_body st;
          sent = [PreventDefault, Post plot_url body];
          caught = (\<lambda>e. \<lparr> state = st,
                          effects = sent @ [ConsoleError ''Error plotting ray:'' e],
                          completion = Fulfilled () \<rparr>)
      in case post plot_url body of
           Rejected e \<Rightarrow> caught e
         | Fulfilled d \<Rightarrow>
             (case js_get d ''image'' of
                Inl e \<Rightarrow> caught e
              | Inr v \<Rightarrow> \<lparr> state = st\<lparr> plotImage := v \<rparr>, effects = sent, completion = Fulfilled () \<rparr>))"

text \<open>The requests and the console lines among the effects.\<close>

fun requests :: "effect list \<Rightarrow> (string \<times> jsval) list" where
  "requests [] = []"
| "requests (Post u b # es) = (u, b) # requests es"
| "requests (e # es) = requests es"

fun logged :: "effect list \<Rightarrow> (string \<times> exn) list" where
  "logged [] = []"
| "logged (ConsoleError m e # es) = (m, e) # logged es"
| "logged (e # es) = logged es"

subsection \<open>What is displayed\<close>

text \<open>
  The two conditional children at the end of the returned \<^verbatim>\<open>div\<close>:
  \<^verbatim>\<open>{focalLength && <p>{focalLength}</p>}\<close> and
  \<^verbatim>\<open>{plotImage && <img src={plotImage} alt="Electron Ray Trace" />}\<close>.
  \<^verbatim>\<open>a && b\<close> is \<open>b\<close> when \<open>a\<close> is truthy and \<open>a\<close> itself otherwise.
\<close>

datatype child =
    Paragraph string
  | Image jsval string
  | Falsy jsval

definition js_and :: "jsval \<Rightarrow> child \<Rightarrow> child" where
  "js_and v c = (if truthy v then c else Falsy v)"

record view =
  field_values :: "(string \<times> jsval) list"
  focal_child :: child
  plot_child :: child

definition render :: "app_state \<Rightarrow> view" where
  "render st =
     \<lparr> field_values = map (\<lambda>k. (k, input_value st k)) field_names,
       focal_child = js_and (JStr (focalLength st)) (Paragraph (focalLength st)),
       plot_child = js_and (plotImage st) (Image (plotImage st) ''Electron Ray Trace'') \<rparr>"



subsection \<open>Sample surroundings\<close>

text \<open>A backend that cannot be reached: every request is rejected.\<close>

definition offline :: network where
  "offline u b = Rejected (AxiosError (JStr ''Network Error''))"

text \<open>How the numbers of the sample responses print.\<close>

definition sample_nts :: "real \<Rightarrow> string" where
  "sample_nts x = (if x = 0 then ''0'' else ''0.05'')"

text \<open>A backend that answers every request with a rendered picture, one that answers with
  sample points, and one that answers with a focal length.\<close>

definition image_backend :: network where
  "image_backend u b = Fulfilled (JObj [(''image'', JStr ''data:image/png;base64,iVBORw0KGgo='')])"

definition points_backend :: network where
  "points_backend u b =
     Fulfilled (JObj [(''points'', JArr [JArr [JNum 0, JNum 1], JArr [JNum 1, JNum 2]])])"

definition focal_backend :: network where
  "focal_backend u b = Fulfilled (JObj [(''focal_length'', JNum 0.05)])"

text \<open>A component that is showing a focal length and a plot.\<close>

definition shown_state :: app_state where
  "shown_state =
     \<lparr> inputs = inputs initial_state,
       focalLength = ''System Focal Length: 0.05 meters'',
       plotImage = JStr ''data:image/png;base64,iVBORw0KGgo='' \<rparr>"

section \<open>The core, from the specification\<close>

text \<open>
  The numerical core (GeometryModel, VoltageProfile, PotentialField, FocalLengthSolver,
  TrajectoryIntegrator, SimulationFacade) is the backend behind the two URLs; the repository
  has no source of it. Its definitions below follow sections 3, 4 and 7 of the
  specification. Numbers are real numbers: the arithmetic is exact, where the backend's
  is floating point.
\<close>

subsection \<open>Errors and data\<close>

text \<open>Modelled from the spec: the error taxonomy of section 7 (the backend's exceptions
  are missing).\<close>

datatype error = ValidationError | DomainError | NumericalInstabilityError

text \<open>Modelled from the spec: ``any failure from a lower component is propagated
  unchanged'' (section 4.5; the backend's control flow is missing): the first failure of a
  sequence of steps is the result.\<close>

fun and_then :: "error + 'a \<Rightarrow> ('a \<Rightarrow> error + 'b) \<Rightarrow> error + 'b" where
  "and_then (Inl e) f = Inl e"
| "and_then (Inr x) f = f x"

text \<open>Modelled from the spec: ElectrodeSegment and LensStack of section 3 (the backend's
  geometry types are missing). A VoltageProfile is the list of the voltages.\<close>

record electrode_segment =
  spacing :: real
  thickness :: real

record lens_stack =
  segments :: "electrode_segment list"
  apertureDiameter :: real

text \<open>Modelled from the spec: ``z_max = sum of spacings and thicknesses'' (section 3).\<close>

definition z_max :: "lens_stack \<Rightarrow> real" where
  "z_max stack = sum_list (map (\<lambda>seg. spacing seg + thickness seg) (segments stack))"

text \<open>Modelled from the spec: the ``ordered axial layout'' of GeometryModel (section 2; the
  backend's layout is missing): the entry and the exit plane of each electrode, each
  electrode after the gap before it.\<close>

fun planes :: "real \<Rightarrow> electrode_segment list \<Rightarrow> (real \<times> real) list" where
  "planes z0 [] = []"
| "planes z0 (seg # segs) =
     (z0 + spacing seg, z0 + spacing seg + thickness seg)
       # planes (z0 + spacing seg + thickness seg) segs"

text \<open>Modelled from the spec: ``the last electrode's exit plane'' (section 4.3; missing
  with the layout).\<close>

definition lens_exit :: "lens_stack \<Rightarrow> real" where
  "lens_exit stack = (case rev (planes 0 (segments stack)) of [] \<Rightarrow> 0 | p # ps \<Rightarrow> snd p)"

subsection \<open>GeometryModel and VoltageProfile\<close>

text \<open>Modelled from the spec: \<^verbatim>\<open>build\<close> of section 4.1 (the backend's validation is
  missing). It ``fails with ValidationError when: sequences have mismatched lengths, any
  spacing is negative, any thickness or the diameter is <= 0, or any sequence is empty'',
  and otherwise pairs the spacings with the thicknesses, in order.\<close>

definition build ::
  "real list \<Rightarrow> real list \<Rightarrow> real \<Rightarrow> real list \<Rightarrow> error + (lens_stack \<times> real list)" where
  "build spacings thicknesses diameter voltages =
     (if spacings = [] \<or> thicknesses = [] \<or> voltages = [] then Inl ValidationError
      else if length thicknesses \<noteq> length spacings \<or> length voltages \<noteq> length spacings
        then Inl ValidationError
      else if list_ex (\<lambda>s. s < 0) spacings then Inl ValidationError
      else if list_ex (\<lambda>t. t \<le> 0) thicknesses \<or> diameter \<le> 0 then Inl ValidationError
      else Inr (\<lparr> segments = map (\<lambda>(s, t). \<lparr> spacing = s, thickness = t \<rparr>) (zip spacings thicknesses),
                  apertureDiameter = diameter \<rparr>,
                voltages))"

subsection \<open>PotentialField\<close>

text \<open>Modelled from the spec: \<^verbatim>\<open>potential_at\<close> of section 4.2 (the backend's field is
  missing). ``The exact closed form is an implementation choice'', so the values
  \<open>(V, V', V'')\<close> inside the domain are the parameter \<open>P\<close>; outside \<open>[0, z_max]\<close> the
  query ``fails with DomainError''.\<close>

type_synonym field_model = "lens_stack \<Rightarrow> real list \<Rightarrow> real \<Rightarrow> real \<times> real \<times> real"

type_synonym potential_field = "real \<Rightarrow> error + (real \<times> real \<times> real)"

definition potential_at :: "field_model \<Rightarrow> lens_stack \<Rightarrow> real list \<Rightarrow> potential_field" where
  "potential_at P stack vp z =
     (if z < 0 \<or> z_max stack < z then Inl DomainError else Inr (P stack vp z))"

text \<open>Modelled from the spec: the closed-form interpolation of section 4.2 (the backend's
  formula is missing): ``each electrode as held at a fixed voltage over its thickness'',
  ``each gap as a region where the potential transitions smoothly between adjacent
  electrode voltages'', with a gap shape that ``depends on diameter and gap length only''.
  The shape is the parameter \<open>sh\<close>: for a diameter, a gap length and the fraction of the
  gap passed, it gives the weight of the next electrode's voltage and the first and
  second derivative of that weight by the fraction. The gap before the first electrode
  has that electrode on one side only, so it starts at that electrode's voltage.\<close>

type_synonym shape = "real \<Rightarrow> real \<Rightarrow> real \<Rightarrow> real \<times> real \<times> real"

fun interpolate ::
  "shape \<Rightarrow> real \<Rightarrow> real \<Rightarrow> (electrode_segment \<times> real) list \<Rightarrow> real \<Rightarrow> real \<times> real \<times> real" where
  "interpolate sh d vprev [] z = (vprev, 0, 0)"
| "interpolate sh d vprev ((seg, v) # rest) z =
     (if z < spacing seg then
        (case sh d (spacing seg) (z / spacing seg) of
           (w, w1, w2) \<Rightarrow>
             (vprev + (v - vprev) * w,
              (v - vprev) * w1 / spacing seg,
              (v - vprev) * w2 / (spacing seg * spacing seg)))
      else if z \<le> spacing seg + thickness seg then (v, 0, 0)
      else interpolate sh d v rest (z - (spacing seg + thickness seg)))"

text \<open>Modelled from the spec: the interpolation above, over the segments of the stack
  paired with their voltages (missing with the backend's field).\<close>

definition interpolated_field :: "shape \<Rightarrow> field_model" where
  "interpolated_field sh stack vp z =
     (case vp of
        [] \<Rightarrow> (0, 0, 0)
      | v0 # vs \<Rightarrow> interpolate sh (apertureDiameter stack) v0 (zip (segments stack) vp) z)"

subsection \<open>The fixed-step integrator\<close>

text \<open>Modelled from the spec: ``NumericalInstabilityError (integration diverges or
  produces a non-finite value)'' (section 7). A quotient by zero is not a finite value.\<close>

definition divide :: "real \<Rightarrow> real \<Rightarrow> error + real" where
  "divide a b = (if b = 0 then Inl NumericalInstabilityError else Inr (a / b))"

text \<open>Modelled from the spec: the part of ElectronState (section 3) that the integrator
  advances, \<open>(r, r')\<close> at one axial position; the position is the grid point. \<open>axpy y h k\<close>
  is the ray \<open>y + h k\<close>.\<close>

type_synonym ray = "real \<times> real"

definition axpy :: "ray \<Rightarrow> real \<Rightarrow> ray \<Rightarrow> ray" where
  "axpy y h k = (fst y + h * fst k, snd y + h * snd k)"

text \<open>Modelled from the spec: the ``fixed-step numerical integrator (e.g., 4th-order
  method)'' of section 4.3 (the backend's integrator is missing), as the classical
  fourth-order Runge-Kutta step for \<open>y' = f z y\<close>.\<close>

definition rk4_step :: "(real \<Rightarrow> ray \<Rightarrow> error + ray) \<Rightarrow> real \<Rightarrow> real \<Rightarrow> ray \<Rightarrow> error + ray" where
  "rk4_step f z h y =
     and_then (f z y) (\<lambda>k1.
     and_then (f (z + h / 2) (axpy y (h / 2) k1)) (\<lambda>k2.
     and_then (f (z + h / 2) (axpy y (h / 2) k2)) (\<lambda>k3.
     and_then (f (z + h) (axpy y h k3)) (\<lambda>k4.
       Inr (fst y + h / 6 * (fst k1 + 2 * fst k2 + 2 * fst k3 + fst k4),
            snd y + h / 6 * (snd k1 + 2 * snd k2 + 2 * snd k3 + snd k4))))))"

text \<open>Modelled from the spec: ``fails with NumericalInstabilityError if intermediate
  |r(z)| or |r'(z)| exceeds a sanity bound (diverging integration)'' (section 4.3; the
  backend's check is missing). The reference ray starts at \<open>r = 1\<close>, so a bound that
  tells a diverging integration from a sound one is at least 1: a smaller configured
  value counts as 1.\<close>

definition check_bound :: "real \<Rightarrow> ray \<Rightarrow> error + ray" where
  "check_bound B y =
     (if max 1 B < \<bar>fst y\<bar> \<or> max 1 B < \<bar>snd y\<bar> then Inl NumericalInstabilityError else Inr y)"

text \<open>Modelled from the spec: the fixed-step integration of sections 4.3 and 4.4 (the
  backend's loop is missing). \<open>integrate f B h i k y\<close> makes \<open>k\<close> steps of length \<open>h\<close> from
  the ray \<open>y\<close> at the \<open>i\<close>-th grid point \<open>i * h\<close>, checks the sanity bound after each step,
  and returns the ray after each step.\<close>

fun integrate ::
  "(real \<Rightarrow> ray \<Rightarrow> error + ray) \<Rightarrow> real \<Rightarrow> real \<Rightarrow> nat \<Rightarrow> nat \<Rightarrow> ray \<Rightarrow> error + ray list" where
  "integrate f B h i 0 y = Inr []"
| "integrate f B h i (Suc k) y =
     and_then (rk4_step f (real i * h) h y) (\<lambda>y1.
     and_then (check_bound B y1) (\<lambda>y2.
     and_then (integrate f B h (Suc i) k y2) (\<lambda>ys. Inr (y2 # ys))))"

text \<open>Modelled from the spec: the configured values of sections 4.3 and 4.4 (the
  backend's configuration is missing): the epsilon of the exit slope, the sanity bound,
  and the minimum resolution, from which the step count is ``derived from the domain
  length'': the least number of steps, at least one, no longer than the resolution.\<close>

record solver_config =
  epsilon :: real
  sanity_bound :: real
  resolution :: real

definition step_count :: "solver_config \<Rightarrow> real \<Rightarrow> nat" where
  "step_count cfg len =
     (if resolution cfg \<le> 0 then 1 else max 1 (nat \<lceil>len / resolution cfg\<rceil>))"

subsection \<open>FocalLengthSolver\<close>

text \<open>Modelled from the spec: a coefficient \<^verbatim>\<open>V'(z) / (2 V(z))\<close> or
  \<^verbatim>\<open>V''(z) / (4 V(z))\<close> of the paraxial ray equation (section 4.3; the backend's solver is
  missing). Where the derivative is zero its term is absent, whatever the potential is:
  section 8 requires that with all voltages equal, where ``both derivatives are ~0
  everywhere'', the solver reports ``undefined'', and section 4.1 puts no condition on the
  voltages, so equal voltages of zero are among them. Where the derivative is not zero a
  potential of zero leaves no finite value: ``V(z) crossing zero'' is the ``degenerate
  voltage configuration'' of section 4.3.\<close>

definition coefficient :: "real \<Rightarrow> real \<Rightarrow> error + real" where
  "coefficient dV V = (if dV = 0 then Inr 0 else divide dV V)"

text \<open>Modelled from the spec: the paraxial ray equation of section 4.3,
  \<^verbatim>\<open>r''(z) = -(V'(z) / (2 V(z))) r'(z) - (V''(z) / (4 V(z))) r(z)\<close>, as a first-order system
  in \<open>(r, r')\<close>.\<close>

definition paraxial_rhs :: "potential_field \<Rightarrow> real \<Rightarrow> ray \<Rightarrow> error + ray" where
  "paraxial_rhs pot z y =
     and_then (pot z) (\<lambda>(V, V1, V2).
     and_then (coefficient V1 (2 * V)) (\<lambda>a.
     and_then (coefficient V2 (4 * V)) (\<lambda>b.
       Inr (snd y, - a * snd y - b * fst y))))"

text \<open>Modelled from the spec: FocalLength of section 3, ``a single scalar (meters), or a
  defined undefined/infinite sentinel''.\<close>

datatype focal = Focal real | Undefined

text \<open>Modelled from the spec: the end of section 4.3 (the backend's solver is missing):
  ``if r'(z_max) ~ 0 (within a configured epsilon) ... reports an undefined/parallel
  result rather than a numeric value'', and otherwise
  \<^verbatim>\<open>f = -r(z_max) / r'(z_max)\<close> ``plus the working-distance offset from the lens exit to
  z_max''.\<close>

definition exit_focal :: "real \<Rightarrow> real \<Rightarrow> ray \<Rightarrow> error + focal" where
  "exit_focal eps wd y =
     (if \<bar>snd y\<bar> \<le> eps then Inr Undefined
      else and_then (divide (- fst y) (snd y)) (\<lambda>q. Inr (Focal (q + wd))))"

text \<open>Modelled from the spec: the start of section 4.3 (the backend's solver is missing):
  the ray at \<open>z_max\<close> is the reference ray ``(r(0)=1, r'(0)=0)'' integrated ``through
  z_max'' in \<open>step_count\<close> steps.\<close>

definition exit_ray :: "solver_config \<Rightarrow> potential_field \<Rightarrow> real \<Rightarrow> error + ray" where
  "exit_ray cfg pot zmax =
     (let n = step_count cfg zmax in
      and_then (integrate (paraxial_rhs pot) (sanity_bound cfg) (zmax / real n) 0 n (1, 0))
        (\<lambda>ys. Inr (last ((1, 0) # ys))))"

text \<open>Modelled from the spec: FocalLengthSolver (section 4.3; missing): the integration,
  then the focal length from the ray at \<open>z_max\<close>.\<close>

definition focal_length_solver ::
  "solver_config \<Rightarrow> potential_field \<Rightarrow> real \<Rightarrow> real \<Rightarrow> error + focal" where
  "focal_length_solver cfg pot zmax wd =
     and_then (exit_ray cfg pot zmax) (exit_focal (epsilon cfg) wd)"

subsection \<open>TrajectoryIntegrator\<close>

text \<open>Modelled from the spec: section 4.4 (the backend's integrator is missing). The
  equation of motion is left open there (``the same class of ODE'', or ``the
  energy-conserving'' form), so it is the parameter \<open>m\<close>: from the release energy, the
  field values and the ray it gives \<open>r''\<close>, or nothing when that is not a finite value.
  The ray starts from ``the actual (non-unit) initial conditions'': the offset, and the
  angle as ``initial slope''. It ``fails with ValidationError when numDatapoints < 2 or
  energy <= 0'', and ``produces exactly numDatapoints samples evenly spaced in z from 0 to
  z_max'': the samples are the grid of the integration, one step between two samples.\<close>

type_synonym motion = "real \<Rightarrow> real \<times> real \<times> real \<Rightarrow> ray \<Rightarrow> real option"

definition motion_rhs :: "motion \<Rightarrow> real \<Rightarrow> potential_field \<Rightarrow> real \<Rightarrow> ray \<Rightarrow> error + ray" where
  "motion_rhs m energy pot z y =
     and_then (pot z) (\<lambda>v.
       case m energy v y of
         None \<Rightarrow> Inl NumericalInstabilityError
       | Some a \<Rightarrow> Inr (snd y, a))"

text \<open>Modelled from the spec: TrajectoryIntegrator (section 4.4; missing), as described
  above.\<close>

definition trajectory_integrator ::
  "solver_config \<Rightarrow> motion \<Rightarrow> potential_field \<Rightarrow> real \<Rightarrow> real \<Rightarrow> real \<Rightarrow> real \<Rightarrow> int
     \<Rightarrow> error + (real \<times> real) list" where
  "trajectory_integrator cfg m pot zmax angle offset energy numDatapoints =
     (if numDatapoints < 2 \<or> energy \<le> 0 then Inl ValidationError
      else
        let k = nat numDatapoints - 1; h = zmax / real k in
        and_then (integrate (motion_rhs m energy pot) (sanity_bound cfg) h 0 k (offset, angle))
          (\<lambda>ys. Inr (map (\<lambda>(i, y). (real i * h, fst y)) (enumerate 0 ((offset, angle) # ys)))))"

subsection \<open>SimulationFacade\<close>

text \<open>Modelled from the spec: the two operations of sections 4.5 and 6 (the backend's
  facade is missing), ``each validating inputs (delegating to 4.1), building the field
  (4.2), and invoking the relevant solver (4.3 or 4.4)''; a failure of a lower component
  is the result.\<close>

definition focal_length ::
  "solver_config \<Rightarrow> field_model \<Rightarrow> real list \<Rightarrow> real list \<Rightarrow> real \<Rightarrow> real list \<Rightarrow> error + focal" where
  "focal_length cfg P spacings thicknesses diameter voltages =
     and_then (build spacings thicknesses diameter voltages) (\<lambda>(stack, vp).
       focal_length_solver cfg (potential_at P stack vp) (z_max stack)
         (z_max stack - lens_exit stack))"

text \<open>Modelled from the spec: \<^verbatim>\<open>trace\<close> of sections 4.5 and 6 (missing), as
  \<^verbatim>\<open>focal_length\<close> above with the trajectory integrator as solver.\<close>

definition trace ::
  "solver_config \<Rightarrow> field_model \<Rightarrow> motion \<Rightarrow> real list \<Rightarrow> real list \<Rightarrow> real \<Rightarrow> real list
     \<Rightarrow> real \<Rightarrow> real \<Rightarrow> real \<Rightarrow> int \<Rightarrow> error + (real \<times> real) list" where
  "trace cfg P m spacings thicknesses diameter voltages angle offset energy numDatapoints =
     and_then (build spacings thicknesses diameter voltages) (\<lambda>(stack, vp).
       trajectory_integrator cfg m (potential_at P stack vp) (z_max stack)
         angle offset energy numDatapoints)"

subsection \<open>Sample configuration\<close>

text \<open>A smooth ramp as gap shape, \<open>3 t\<^sup>2 - 2 t\<^sup>3\<close> with its two derivatives, whatever the
  diameter and the gap length.\<close>

definition smooth_ramp :: shape where
  "smooth_ramp d g t = (3 * t * t - 2 * t * t * t, 6 * t - 6 * t * t, 6 - 12 * t)"

text \<open>The paraxial equation as equation of motion, on the potential raised by the release
  energy.\<close>

definition paraxial_motion :: motion where
  "paraxial_motion energy v y =
     (case v of (V, V1, V2) \<Rightarrow>
        (case coefficient V1 (2 * (V + energy)) of
           Inl e \<Rightarrow> None
         | Inr a \<Rightarrow>
             (case coefficient V2 (4 * (V + energy)) of
                Inl e \<Rightarrow> None
              | Inr b \<Rightarrow> Some (- a * snd y - b * fst y))))"

definition sample_config :: solver_config where
  "sample_config = \<lparr> epsilon = 1 / 1000000000, sanity_bound = 1000000, resolution = 1 / 100 \<rparr>"

text \<open>Two electrodes at different voltages with a long gap between them, and a
  configuration whose resolution gives two integration steps over them.\<close>

definition two_electrodes :: lens_stack where
  "two_electrodes =
     \<lparr> segments = [\<lparr> spacing = 0, thickness = 1 / 100 \<rparr>, \<lparr> spacing = 1 / 25, thickness = 1 / 100 \<rparr>],
       apertureDiameter = 1 / 50 \<rparr>"

definition coarse_config :: solver_config where
  "coarse_config = \<lparr> epsilon = 1 / 1000000000, sanity_bound = 1000000, resolution = 3 / 100 \<rparr>"

section \<open>Properties of the presentation layer\<close>

subsection \<open>What the requests carry\<close>





lemma focal_requests:
  "requests (effects (handleFocalLengthCalculation nts post st)) = [(focal_url, focal_body st)]"
  by (simp add: handleFocalLengthCalculation_def Let_def split: settled.split sum.split)







subsection \<open>What flows into the focal length request\<close>

lemma focal_body_cong:
  assumes "\<forall>k \<in> {''spacings'', ''thicknesses'', ''diameter'', ''voltages''}.
             inputs st1 k = inputs st2 k"
  shows "focal_body st1 = focal_body st2"
  using assms by (simp add: focal_body_def input_value_def)

text \<open>
  Claim C9. The body of the focal length request has the four properties \<^verbatim>\<open>spacings\<close>,
  \<^verbatim>\<open>thicknesses\<close>, \<^verbatim>\<open>diameter\<close> and \<^verbatim>\<open>voltages\<close> and no other. Two states that agree on
  these four fields send the same request, whatever \<^verbatim>\<open>angle\<close>, \<^verbatim>\<open>offset\<close>, \<^verbatim>\<open>energy\<close> and
  \<^verbatim>\<open>numDatapoints\<close> hold; with the same backend they have the same effects, and when they
  showed the same focal length text before the call they show the same one after it.
\<close>

theorem focal_request_ignores_trajectory_fields:
  assumes "\<forall>k \<in> {''spacings'', ''thicknesses'', ''diameter'', ''voltages''}.
             inputs st1 k = inputs st2 k"
  shows "keys (focal_body st1) = [''spacings'', ''thicknesses'', ''diameter'', ''voltages'']
       \<and> requests (effects (handleFocalLengthCalculation nts post st1))
           = [(focal_url, focal_body st1)]
       \<and> requests (effects (handleFocalLengthCalculation nts post st2))
           = [(focal_url, focal_body st1)]
       \<and> effects (handleFocalLengthCalculation nts post st1)
           = effects (handleFocalLengthCalculation nts post st2)
       \<and> (focalLength st1 = focalLength st2 \<longrightarrow>
            focalLength (state (handleFocalLengthCalculation nts post st1))
              = focalLength (state (handleFocalLengthCalculation nts post st2))
          \<and> focal_child (render (state (handleFocalLengthCalculation nts post st1)))
              = focal_child (render (state (handleFocalLengthCalculation nts post st2))))"
proof -
  have b: "focal_body st1 = focal_body st2"
    using assms by (rule focal_body_cong)
  have "keys (focal_body st1) = [''spacings'', ''thicknesses'', ''diameter'', ''voltages'']"
    by (simp add: focal_body_def)
  moreover have "effects (handleFocalLengthCalculation nts post st1)
      = effects (handleFocalLengthCalculation nts post st2)"
    by (simp add: handleFocalLengthCalculation_def Let_def b split: settled.split sum.split)
  moreover have "focalLength (state (handleFocalLengthCalculation nts post st1))
        = focalLength (state (handleFocalLengthCalculation nts post st2))
      \<and> focal_child (render (state (handleFocalLengthCalculation nts post st1)))
        = focal_child (render (state (handleFocalLengthCalculation nts post st2)))"
    if "focalLength st1 = focalLength st2"
    using that
    by (simp add: handleFocalLengthCalculation_def Let_def b render_def
        split: settled.split sum.split)
  ultimately show ?thesis
    by (simp add: focal_requests b)
qed

theorem focal_request_ignores_trajectory_fields_witness:
  "inputs (form_state [(''spacings'', ''0.01''), (''angle'', ''0.1'')]) ''spacings''
      = inputs (form_state [(''spacings'', ''0.01''), (''energy'', ''5''), (''numDatapoints'', ''7'')]) ''spacings''
   \<and> inputs (form_state [(''spacings'', ''0.01''), (''angle'', ''0.1'')]) ''thicknesses''
      = inputs (form_state [(''spacings'', ''0.01''), (''energy'', ''5''), (''numDatapoints'', ''7'')]) ''thicknesses''
   \<and> inputs (form_state [(''spacings'', ''0.01''), (''angle'', ''0.1'')]) ''diameter''
      = inputs (form_state [(''spacings'', ''0.01''), (''energy'', ''5''), (''numDatapoints'', ''7'')]) ''diameter''
   \<and> inputs (form_state [(''spacings'', ''0.01''), (''angle'', ''0.1'')]) ''voltages''
      = inputs (form_state [(''spacings'', ''0.01''), (''energy'', ''5''), (''numDatapoints'', ''7'')]) ''voltages''
   \<and> inputs (form_state [(''spacings'', ''0.01''), (''angle'', ''0.1'')]) ''angle''
      \<noteq> inputs (form_state [(''spacings'', ''0.01''), (''energy'', ''5''), (''numDatapoints'', ''7'')]) ''angle''
   \<and> focalLength (state (handleFocalLengthCalculation sample_nts focal_backend
        (form_state [(''spacings'', ''0.01''), (''angle'', ''0.1'')])))
      = focalLength (state (handleFocalLengthCalculation sample_nts focal_backend
        (form_state [(''spacings'', ''0.01''), (''energy'', ''5''), (''numDatapoints'', ''7'')])))"
  using focal_request_ignores_trajectory_fields
    [of "form_state [(''spacings'', ''0.01''), (''angle'', ''0.1'')]"
        "form_state [(''spacings'', ''0.01''), (''energy'', ''5''), (''numDatapoints'', ''7'')]"
        sample_nts focal_backend]
  by (simp add: form_state_def handleChange_def initial_state_def field_names_def)

subsection \<open>What the plot handler shows\<close>

text \<open>
  Claim C2, as the code has it. When the plot request is answered and the answer has an
  \<^verbatim>\<open>image\<close> property, \<open>plotImage\<close> becomes that property, unchanged, and the component
  shows it as the source of an \<^verbatim>\<open>img\<close> element when it is truthy. Two answers with the same
  \<^verbatim>\<open>image\<close> leave the same outcome, whatever else they carry: the handler reads no points
  and draws nothing itself.
\<close>

theorem plot_is_response_image:
  assumes "post plot_url (ray_body st) = Fulfilled d"
      and "post' plot_url (ray_body st) = Fulfilled d'"
      and "js_get d ''image'' = Inr v"
      and "js_get d' ''image'' = Inr v"
  shows "plotImage (state (handleRayPlotting post st)) = v
       \<and> plot_child (render (state (handleRayPlotting post st)))
           = (if truthy v then Image v ''Electron Ray Trace'' else Falsy v)
       \<and> handleRayPlotting post' st = handleRayPlotting post st"
  using assms by (simp add: handleRayPlotting_def render_def js_and_def)

theorem plot_is_response_image_witness:
  "image_backend plot_url (ray_body initial_state)
     = Fulfilled (JObj [(''image'', JStr ''data:image/png;base64,iVBORw0KGgo='')])
   \<and> js_get (JObj [(''image'', JStr ''data:image/png;base64,iVBORw0KGgo='')]) ''image''
     = Inr (JStr ''data:image/png;base64,iVBORw0KGgo='')
   \<and> plotImage (state (handleRayPlotting image_backend initial_state))
     = JStr ''data:image/png;base64,iVBORw0KGgo=''"
  using plot_is_response_image [of image_backend initial_state
      "JObj [(''image'', JStr ''data:image/png;base64,iVBORw0KGgo='')]" image_backend
      "JObj [(''image'', JStr ''data:image/png;base64,iVBORw0KGgo='')]"
      "JStr ''data:image/png;base64,iVBORw0KGgo=''"]
  by (simp add: image_backend_def)

text \<open>
  Claim C2 as it is written fails. A backend that delivers a rendered picture has it
  displayed as it is, and a backend that delivers sample points and no picture has
  nothing displayed: \<open>plotImage\<close> is \<^verbatim>\<open>undefined\<close> and the \<^verbatim>\<open>img\<close> element is absent.
\<close>

theorem image_not_points_counterexample:
  "plot_child (render (state (handleRayPlotting image_backend initial_state)))
     = Image (JStr ''data:image/png;base64,iVBORw0KGgo='') ''Electron Ray Trace''
   \<and> plot_child (render (state (handleRayPlotting points_backend initial_state)))
     = Falsy JUndefined"
  by (simp add: handleRayPlotting_def render_def js_and_def image_backend_def points_backend_def)

subsection \<open>Failed requests\<close>

text \<open>
  Claim C3, as the code has it. When the request of a handler is rejected with \<open>e\<close>, the
  \<^verbatim>\<open>catch\<close> branch runs: the handler's promise is fulfilled all the same, the one request
  is followed by one \<^verbatim>\<open>console.error\<close> line that carries \<open>e\<close> unchanged (no second
  request), and the state is the state before (no value is put in place of the result).
\<close>

theorem failure_caught_and_logged:
  "(post focal_url (focal_body st) = Rejected e \<longrightarrow>
      completion (handleFocalLengthCalculation nts post st) = Fulfilled ()
    \<and> effects (handleFocalLengthCalculation nts post st)
        = [PreventDefault, Post focal_url (focal_body st),
           ConsoleError ''Error fetching focal length:'' e]
    \<and> state (handleFocalLengthCalculation nts post st) = st)
   \<and> (post plot_url (ray_body st) = Rejected e' \<longrightarrow>
      completion (handleRayPlotting post st) = Fulfilled ()
    \<and> effects (handleRayPlotting post st)
        = [PreventDefault, Post plot_url (ray_body st), ConsoleError ''Error plotting ray:'' e']
    \<and> state (handleRayPlotting post st) = st)"
  by (simp add: handleFocalLengthCalculation_def handleRayPlotting_def)

theorem failure_caught_and_logged_witness:
  "offline focal_url (focal_body initial_state) = Rejected (AxiosError (JStr ''Network Error''))
   \<and> completion (handleFocalLengthCalculation sample_nts offline initial_state) = Fulfilled ()
   \<and> offline plot_url (ray_body initial_state) = Rejected (AxiosError (JStr ''Network Error''))
   \<and> completion (handleRayPlotting offline initial_state) = Fulfilled ()"
  using failure_caught_and_logged [of offline initial_state "AxiosError (JStr ''Network Error'')"
      sample_nts "AxiosError (JStr ''Network Error'')"]
  by (simp add: offline_def)

text \<open>
  Claim C3 as it is written fails: with a backend that cannot be reached, the request of
  each handler is rejected, and the handler's own promise is not rejected with that
  error.
\<close>

theorem failure_not_propagated_counterexample:
  "offline plot_url (ray_body initial_state) = Rejected (AxiosError (JStr ''Network Error''))
   \<and> completion (handleRayPlotting offline initial_state)
       \<noteq> Rejected (AxiosError (JStr ''Network Error''))
   \<and> offline focal_url (focal_body initial_state) = Rejected (AxiosError (JStr ''Network Error''))
   \<and> completion (handleFocalLengthCalculation sample_nts offline initial_state)
       \<noteq> Rejected (AxiosError (JStr ''Network Error''))"
  by (simp add: handleRayPlotting_def handleFocalLengthCalculation_def offline_def)

text \<open>An answered request can end in the \<^verbatim>\<open>catch\<close> branch too: a focal length that has
  no string, an object with a \<^verbatim>\<open>toString\<close> property of its own, makes the template literal
  throw, and the handler logs the TypeError and sets nothing.\<close>

lemma unprintable_focal_length_caught:
  assumes "post focal_url (focal_body st)
             = Fulfilled (JObj [(''focal_length'', JObj [(''toString'', JStr ''x'')])])"
  shows "state (handleFocalLengthCalculation nts post st) = st
       \<and> logged (effects (handleFocalLengthCalculation nts post st))
           = [(''Error fetching focal length:'', TypeError)]"
  using assms by (simp add: handleFocalLengthCalculation_def)

text \<open>
  Claim C10. When the request of a handler is rejected, the focal length text, the plot
  image and everything displayed are what they were before the call, and the only thing
  the \<^verbatim>\<open>catch\<close> branch did is one \<^verbatim>\<open>console.error\<close> line.
\<close>

theorem failed_request_keeps_display:
  "(post focal_url (focal_body st) = Rejected e \<longrightarrow>
      focalLength (state (handleFocalLengthCalculation nts post st)) = focalLength st
    \<and> plotImage (state (handleFocalLengthCalculation nts post st)) = plotImage st
    \<and> render (state (handleFocalLengthCalculation nts post st)) = render st
    \<and> logged (effects (handleFocalLengthCalculation nts post st))
        = [(''Error fetching focal length:'', e)])
   \<and> (post plot_url (ray_body st) = Rejected e' \<longrightarrow>
      focalLength (state (handleRayPlotting post st)) = focalLength st
    \<and> plotImage (state (handleRayPlotting post st)) = plotImage st
    \<and> render (state (handleRayPlotting post st)) = render st
    \<and> logged (effects (handleRayPlotting post st)) = [(''Error plotting ray:'', e')])"
  by (simp add: handleFocalLengthCalculation_def handleRayPlotting_def)

theorem failed_request_keeps_display_witness:
  "offline focal_url (focal_body shown_state) = Rejected (AxiosError (JStr ''Network Error''))
   \<and> focalLength (state (handleFocalLengthCalculation sample_nts offline shown_state))
       = ''System Focal Length: 0.05 meters''
   \<and> offline plot_url (ray_body shown_state) = Rejected (AxiosError (JStr ''Network Error''))
   \<and> plotImage (state (handleRayPlotting offline shown_state))
       = JStr ''data:image/png;base64,iVBORw0KGgo=''"
  using failed_request_keeps_display [of offline shown_state "AxiosError (JStr ''Network Error'')"
      sample_nts "AxiosError (JStr ''Network Error'')"]
  by (simp add: offline_def shown_state_def)

section \<open>Properties of the core\<close>

subsection \<open>Validation\<close>

lemma build_error: "build sp th d vs = Inl e \<Longrightarrow> e = ValidationError"
  by (simp add: build_def split: if_splits)


lemma build_fails:
  "build sp th d vs = Inl ValidationError \<longleftrightarrow>
     (length sp \<noteq> length th \<or> length th \<noteq> length vs \<or> length sp \<noteq> length vs
      \<or> (\<exists>s \<in> set sp. s < 0) \<or> (\<exists>t \<in> set th. t \<le> 0) \<or> d \<le> 0
      \<or> sp = [] \<or> th = [] \<or> vs = [])"
  by (auto simp: build_def list_ex_iff)

text \<open>
  Claim C6. \<open>build\<close> fails with ValidationError exactly when two of the sequences differ
  in length, a spacing is negative, a thickness or the diameter is not positive, or a
  sequence is empty, and it fails in no other way. When the spacings and the voltages
  differ in length, both operations of the facade fail with ValidationError whatever the
  field model \<open>P\<close> is: the field is never consulted.
\<close>

theorem build_fails_iff:
  "(build sp th d vs = Inl ValidationError \<longleftrightarrow>
      (length sp \<noteq> length th \<or> length th \<noteq> length vs \<or> length sp \<noteq> length vs
       \<or> (\<exists>s \<in> set sp. s < 0) \<or> (\<exists>t \<in> set th. t \<le> 0) \<or> d \<le> 0
       \<or> sp = [] \<or> th = [] \<or> vs = []))
   \<and> (\<forall>e. build sp th d vs = Inl e \<longrightarrow> e = ValidationError)
   \<and> (length sp \<noteq> length vs \<longrightarrow>
        focal_length cfg P sp th d vs = Inl ValidationError
      \<and> trace cfg P m sp th d vs angle offset energy n = Inl ValidationError)"
proof -
  have "build sp th d vs = Inl ValidationError" if "length sp \<noteq> length vs"
    using that by (simp add: build_fails)
  then have "length sp \<noteq> length vs \<longrightarrow>
        focal_length cfg P sp th d vs = Inl ValidationError
      \<and> trace cfg P m sp th d vs angle offset energy n = Inl ValidationError"
    by (simp add: focal_length_def trace_def)
  then show ?thesis
    using build_fails [of sp th d vs] build_error [of sp th d vs] by blast
qed

theorem build_fails_iff_witness:
  "build [1 / 100, 1 / 100] [1 / 100, 1 / 100] (1 / 50) [100] = Inl ValidationError
   \<and> length [1 / 100, 1 / 100 :: real] \<noteq> length [100 :: real]
   \<and> focal_length sample_config (interpolated_field smooth_ramp)
        [1 / 100, 1 / 100] [1 / 100, 1 / 100] (1 / 50) [100] = Inl ValidationError
   \<and> build [1 / 100] [1 / 100] (1 / 50) [100] \<noteq> Inl ValidationError"
  using build_fails_iff [of "[1 / 100, 1 / 100]" "[1 / 100, 1 / 100]" "1 / 50" "[100]"
      sample_config "interpolated_field smooth_ramp" paraxial_motion 0 0 1 3]
    build_fails_iff [of "[1 / 100]" "[1 / 100]" "1 / 50" "[100]"
      sample_config "interpolated_field smooth_ramp" paraxial_motion 0 0 1 3]
  by simp

lemma trajectory_integrator_rejects:
  "n < 2 \<or> energy \<le> 0 \<Longrightarrow>
   trajectory_integrator cfg m pot zmax angle offset energy n = Inl ValidationError"
  by (auto simp: trajectory_integrator_def)

text \<open>
  Claim C5. With fewer than two datapoints, or with an energy that is not positive,
  \<open>trace\<close> fails with ValidationError, whatever the other arguments are; so it returns
  no samples.
\<close>

theorem trace_rejects:
  assumes "n < 2 \<or> energy \<le> 0"
  shows "trace cfg P m sp th d vs angle offset energy n = Inl ValidationError"
proof (cases "build sp th d vs")
  case (Inl e)
  then show ?thesis using build_error [OF Inl] by (simp add: trace_def)
next
  case (Inr b)
  then show ?thesis
    using assms by (cases b) (simp add: trace_def trajectory_integrator_rejects)
qed

theorem trace_rejects_witness:
  "((1::int) < 2 \<or> (5::real) \<le> 0)
   \<and> trace sample_config (interpolated_field smooth_ramp) paraxial_motion
        [1 / 100] [1 / 100] (1 / 50) [100] (1 / 10) (1 / 1000) 5 1 = Inl ValidationError
   \<and> ((3::int) < 2 \<or> (0::real) \<le> 0)
   \<and> trace sample_config (interpolated_field smooth_ramp) paraxial_motion
        [1 / 100] [1 / 100] (1 / 50) [100] (1 / 10) (1 / 1000) 0 3 = Inl ValidationError"
  using trace_rejects [of 1 5 sample_config "interpolated_field smooth_ramp" paraxial_motion
      "[1 / 100]" "[1 / 100]" "1 / 50" "[100]" "1 / 10" "1 / 1000"]
    trace_rejects [of 3 0 sample_config "interpolated_field smooth_ramp" paraxial_motion
      "[1 / 100]" "[1 / 100]" "1 / 50" "[100]" "1 / 10" "1 / 1000"]
  by simp

subsection \<open>The axial extent\<close>





text \<open>The last electrode ends at \<open>z_max\<close>: the working distance that \<open>focal_length\<close>
  adds is zero.\<close>

lemma planes_empty: "planes z0 segs = [] \<longleftrightarrow> segs = []"
  by (cases segs) simp_all

lemma planes_last:
  "segs \<noteq> [] \<Longrightarrow>
   snd (last (planes z0 segs)) = z0 + sum_list (map (\<lambda>seg. spacing seg + thickness seg) segs)"
proof (induction segs arbitrary: z0)
  case Nil
  then show ?case by simp
next
  case (Cons seg segs)
  show ?case
  proof (cases "segs = []")
    case True
    then show ?thesis by simp
  next
    case False
    then show ?thesis using Cons.IH [OF False] by (simp add: planes_empty)
  qed
qed

lemma lens_exit_z_max:
  assumes "segments stack \<noteq> []"
  shows "lens_exit stack = z_max stack"
proof -
  have ne: "planes 0 (segments stack) \<noteq> []" using assms by (simp add: planes_empty)
  then have "lens_exit stack = snd (last (planes 0 (segments stack)))"
    by (cases "planes 0 (segments stack)" rule: rev_cases) (simp_all add: lens_exit_def)
  then show ?thesis using planes_last [OF assms, of 0] by (simp add: z_max_def)
qed

subsection \<open>The integrator stays in the domain\<close>








subsection \<open>The samples of a trajectory\<close>





subsection \<open>The guard of the exit slope\<close>

lemma exit_focal_cases:
  assumes "0 \<le> eps"
  shows "exit_focal eps wd (r, p) =
     (if \<bar>p\<bar> \<le> eps then Inr Undefined else Inr (Focal (- r / p + wd)))"
  using assms by (auto simp: exit_focal_def divide_def)

text \<open>
  Claim C8. With a configured epsilon that is not negative, the solver has three paths.
  When the integration fails, that failure is the result and nothing is divided by the
  exit slope. When it ends with the ray \<open>(r, r')\<close> at \<open>z_max\<close> and \<open>|r'|\<close> is within
  epsilon, the result is the undefined sentinel. Only when \<open>|r'|\<close> exceeds epsilon is the
  result the number \<open>-r / r'\<close> plus the working distance, and then \<open>r'\<close> is not zero:
  the quotient never fails.
\<close>

theorem exit_slope_guard:
  assumes "0 \<le> epsilon cfg"
  shows "case exit_ray cfg pot zmax of
           Inl e \<Rightarrow> focal_length_solver cfg pot zmax wd = Inl e
         | Inr (r, p) \<Rightarrow>
             (if \<bar>p\<bar> \<le> epsilon cfg
              then focal_length_solver cfg pot zmax wd = Inr Undefined
              else p \<noteq> 0 \<and> focal_length_solver cfg pot zmax wd = Inr (Focal (- r / p + wd)))"
proof (cases "exit_ray cfg pot zmax")
  case (Inl e)
  then show ?thesis by (simp add: focal_length_solver_def)
next
  case (Inr y)
  obtain r p where y: "y = (r, p)" by (cases y)
  show ?thesis
    using assms Inr y by (auto simp: focal_length_solver_def exit_focal_cases)
qed

theorem exit_slope_guard_witness:
  "(0::real) \<le> epsilon coarse_config
   \<and> exit_ray coarse_config (potential_at (interpolated_field smooth_ramp) two_electrodes [100, 500])
        (3 / 50)
      = Inr (- (626172503 / 1697440000), - (209862867 / 8487200))
   \<and> focal_length_solver coarse_config
        (potential_at (interpolated_field smooth_ramp) two_electrodes [100, 500]) (3 / 50) 0
      = Inr (Focal (- (626172503 / 41972573400)))"
  using exit_slope_guard [of coarse_config
      "potential_at (interpolated_field smooth_ramp) two_electrodes [100, 500]" "3 / 50" 0]
  by (simp add: exit_ray_def coarse_config_def step_count_def two_electrodes_def
      potential_at_def interpolated_field_def smooth_ramp_def paraxial_rhs_def coefficient_def
      divide_def rk4_step_def axpy_def check_bound_def z_max_def numeral_2_eq_2)

subsection \<open>Uniform potential\<close>











end
